theory Spec2Isabelle
  imports Complex_Main "HOL-Library.Word" "HOL-Library.Multiset"
begin

unbundle bit_operations_syntax

section \<open>Text files and the checkpoint ledger (utils/checkpoints.py)\<close>

text \<open>
  Strings are lists of characters with code points below 256. A text file is read in
  Python's text mode: the universal-newlines translation maps CR LF and a lone CR to LF,
  and iterating over the file yields the lines, each with its terminating LF, the last one
  possibly unterminated.
\<close>

abbreviation LF :: char where "LF \<equiv> CHR 0x0A"
abbreviation CR :: char where "CR \<equiv> CHR 0x0D"

definition py_isspace :: "char \<Rightarrow> bool" where
  "py_isspace c =
     (let n = (of_char c :: nat)
      in (9 \<le> n \<and> n \<le> 13) \<or> (28 \<le> n \<and> n \<le> 32) \<or> n = 133 \<or> n = 160)"

definition lstrip :: "string \<Rightarrow> string" where
  "lstrip s = dropWhile py_isspace s"

definition rstrip :: "string \<Rightarrow> string" where
  "rstrip s = rev (dropWhile py_isspace (rev s))"

definition strip :: "string \<Rightarrow> string" where
  "strip s = rstrip (lstrip s)"

fun universal_newlines :: "string \<Rightarrow> string" where
  "universal_newlines [] = []"
| "universal_newlines [c] = (if c = CR then [LF] else [c])"
| "universal_newlines (c # d # cs) =
     (if c = CR \<and> d = LF then LF # universal_newlines cs
      else if c = CR then LF # universal_newlines (d # cs)
      else c # universal_newlines (d # cs))"

fun split_lines :: "string \<Rightarrow> string \<Rightarrow> string list" where
  "split_lines cur [] = (if cur = [] then [] else [cur])"
| "split_lines cur (c # cs) =
     (if c = LF then (cur @ [c]) # split_lines [] cs else split_lines (cur @ [c]) cs)"

definition readlines :: "string \<Rightarrow> string list" where
  "readlines content = split_lines [] (universal_newlines content)"

text \<open>
  The file system maps a path to the text of the file there. An append either succeeds,
  creating the file when it is absent, or raises \<open>OSError\<close>; the fault oracle says
  when it raises and what the failed call leaves behind.
\<close>

type_synonym filesystem = "string \<rightharpoonup> string"

datatype exn = OSError | ValueError | Exc string

type_synonym io_faults = "filesystem \<Rightarrow> string \<Rightarrow> string \<Rightarrow> filesystem option"

definition no_faults :: io_faults where
  "no_faults fs path s = None"

definition append_text :: "io_faults \<Rightarrow> filesystem \<Rightarrow> string \<Rightarrow> string \<Rightarrow> exn option \<times> filesystem" where
  "append_text flt fs path s =
     (case flt fs path s of
        Some fs' \<Rightarrow> (Some OSError, fs')
      | None \<Rightarrow> (None, fs(path \<mapsto> (case fs path of None \<Rightarrow> s | Some c \<Rightarrow> c @ s))))"

record checkpoint_manager =
  cm_path :: string
  processed :: "string set"

fun load_loop :: "string list \<Rightarrow> string set \<Rightarrow> string set" where
  "load_loop [] S = S"
| "load_loop (line # rest) S =
     (let l = strip line in if l \<noteq> [] then load_loop rest (insert l S) else load_loop rest S)"

definition CheckpointManager_init :: "filesystem \<Rightarrow> string \<Rightarrow> checkpoint_manager" where
  "CheckpointManager_init fs path =
     \<lparr>cm_path = path,
      processed = (case fs path of None \<Rightarrow> {} | Some content \<Rightarrow> load_loop (readlines content) {})\<rparr>"

definition is_processed :: "checkpoint_manager \<Rightarrow> string \<Rightarrow> bool" where
  "is_processed cm file_hash = (file_hash \<in> processed cm)"

definition mark_processed ::
  "io_faults \<Rightarrow> filesystem \<Rightarrow> checkpoint_manager \<Rightarrow> string
     \<Rightarrow> exn option \<times> filesystem \<times> checkpoint_manager" where
  "mark_processed flt fs cm file_hash =
     (if file_hash \<notin> processed cm then
        (case append_text flt fs (cm_path cm) (file_hash @ [LF]) of
           (Some e, fs') \<Rightarrow> (Some e, fs', cm)
         | (None, fs') \<Rightarrow> (None, fs', cm\<lparr>processed := insert file_hash (processed cm)\<rparr>))
      else (None, fs, cm))"




text \<open>A fault oracle under which every append raises and writes nothing.\<close>

definition always_fails :: io_faults where
  "always_fails fs path s = Some fs"

section \<open>Token bucket (utils/rate\_limiter.py)\<close>

text \<open>
  Floats are read as reals. The monotonic clock is a value of the state; a call of
  \<open>acquire\<close> is given how long the caller was away before the call (\<open>gap\<close>) and by how
  much \<open>time.sleep\<close> overshoots the requested duration (\<open>oversleep\<close>). The
  constructor admits a positive rate only, so the duration requested is positive whenever
  a sleep is requested. The result of a call records the duration requested, if any, and
  the time slept.
\<close>

record rate_limiter =
  rate :: real
  capacity :: real
  tokens :: real
  last_checked :: real

definition RateLimiter_init :: "real \<Rightarrow> real option \<Rightarrow> real \<Rightarrow> exn + rate_limiter" where
  "RateLimiter_init rate_per_sec cap monotonic =
     (if rate_per_sec \<le> 0 then Inl ValueError
      else let c = (case cap of Some c \<Rightarrow> c | None \<Rightarrow> rate_per_sec)
           in Inr \<lparr>rate = rate_per_sec, capacity = c, tokens = c, last_checked = monotonic\<rparr>)"

record acquire_env =
  gap :: real
  oversleep :: real

record acquired =
  limiter :: rate_limiter
  clock :: real
  requested :: "real option"
  slept :: real

definition acquire :: "rate_limiter \<Rightarrow> real \<Rightarrow> acquire_env \<Rightarrow> acquired" where
  "acquire rl clk ev =
     (let now = clk + gap ev;
          elapsed = now - last_checked rl;
          rl1 = rl\<lparr>tokens := min (capacity rl) (tokens rl + elapsed * rate rl), last_checked := now\<rparr>
      in if tokens rl1 < 1 then
           let sleep_time = (1 - tokens rl1) / rate rl1;
               now2 = now + (sleep_time + oversleep ev);
               elapsed2 = now2 - last_checked rl1;
               rl2 = rl1\<lparr>tokens := min (capacity rl1) (tokens rl1 + elapsed2 * rate rl1),
                         last_checked := now2\<rparr>
           in \<lparr>limiter = rl2\<lparr>tokens := tokens rl2 - 1\<rparr>, clock = now2,
               requested = Some sleep_time, slept = sleep_time + oversleep ev\<rparr>
         else \<lparr>limiter = rl1\<lparr>tokens := tokens rl1 - 1\<rparr>, clock = now,
               requested = None, slept = 0\<rparr>)"


text \<open>One caller acquiring once per event, as the loop of the rate limiter's test does.\<close>

fun acquire_seq :: "rate_limiter \<Rightarrow> real \<Rightarrow> acquire_env list \<Rightarrow> acquired list" where
  "acquire_seq rl clk [] = []"
| "acquire_seq rl clk (ev # evs) =
     (let a = acquire rl clk ev in a # acquire_seq (limiter a) (clock a) evs)"

section \<open>Retry with exponential backoff (utils/backoff.py)\<close>

text \<open>
  The wrapped operation is a state transformer returning the raised exception or the value.
  \<open>exceptions\<close> is the predicate of the retryable exceptions, \<open>u\<close> gives the draw in
  \<open>[0, 1)\<close> behind \<open>random.uniform\<close> at each attempt. \<open>time.sleep\<close> raises
  \<open>ValueError\<close> on a negative duration. The result carries the final state, the number
  of calls of the operation and the durations slept.
\<close>

function retry_loop ::
  "('s \<Rightarrow> (exn + 'a) \<times> 's) \<Rightarrow> int \<Rightarrow> real \<Rightarrow> (exn \<Rightarrow> bool) \<Rightarrow> (nat \<Rightarrow> real)
     \<Rightarrow> nat \<Rightarrow> 's \<Rightarrow> nat \<Rightarrow> real list \<Rightarrow> (exn + 'a) \<times> 's \<times> nat \<times> real list" where
  "retry_loop func retries base_delay exceptions u attempts s calls sleeps =
     (case func s of
        (Inr v, s') \<Rightarrow> (Inr v, s', calls + 1, sleeps)
      | (Inl exc, s') \<Rightarrow>
          if \<not> exceptions exc then (Inl exc, s', calls + 1, sleeps)
          else if int attempts \<ge> retries then (Inl exc, s', calls + 1, sleeps)
          else
            let delay = base_delay * 2 ^ attempts;
                jitter = min (1 / 10) delay * u attempts;
                wait_time = delay + jitter
            in if wait_time < 0 then (Inl ValueError, s', calls + 1, sleeps)
               else retry_loop func retries base_delay exceptions u (attempts + 1) s' (calls + 1)
                      (sleeps @ [wait_time]))"
  by pat_completeness auto
termination
  by (relation "measure (\<lambda>(func, retries, base_delay, exceptions, u, attempts, s, calls, sleeps).
        nat (retries - int attempts))") auto

declare retry_loop.simps [simp del]

definition retry ::
  "('s \<Rightarrow> (exn + 'a) \<times> 's) \<Rightarrow> int \<Rightarrow> real \<Rightarrow> (exn \<Rightarrow> bool) \<Rightarrow> (nat \<Rightarrow> real)
     \<Rightarrow> 's \<Rightarrow> (exn + 'a) \<times> 's \<times> nat \<times> real list" where
  "retry func retries base_delay exceptions u s =
     retry_loop func retries base_delay exceptions u 0 s 0 []"

text \<open>The duration slept before the retry that follows the failed attempt \<open>attempts\<close>.\<close>

definition wait_time :: "real \<Rightarrow> (nat \<Rightarrow> real) \<Rightarrow> nat \<Rightarrow> real" where
  "wait_time base_delay u attempts =
     base_delay * 2 ^ attempts + min (1 / 10) (base_delay * 2 ^ attempts) * u attempts"

text \<open>An operation that fails \<open>k\<close> times and succeeds from then on.\<close>

definition flaky :: "nat \<Rightarrow> nat \<Rightarrow> (exn + string) \<times> nat" where
  "flaky k i = (if i < k then Inl (Exc ''transient'') else Inr ''ok'', Suc i)"



section \<open>Tail latency of the benchmark (pipeline.py, bench)\<close>

text \<open>
  \<open>int(0.95 * n)\<close> truncates a positive product, which is read exactly here; the double
  product rounds to the same integer part for every count a benchmark can reach, the exact
  product being either an integer or at least \<open>0.05\<close> away from one.
\<close>

definition bench_p95 :: "real list \<Rightarrow> real" where
  "bench_p95 latencies =
     (if latencies \<noteq> [] then
        (if length latencies \<ge> 20 then
           let sorted_latencies = sort latencies;
               index = \<lfloor>(95 / 100) * real (length sorted_latencies)\<rfloor> - 1
           in sorted_latencies ! nat (max 0 index)
         else Max (set latencies))
      else 0)"

text \<open>
  The specification's wording of the same quantity: the nearest-rank percentile, the
  element of rank \<open>\<lceil>0.95 \<cdot> count\<rceil>\<close> of the ascending latencies.
\<close>

definition nearest_rank_p95 :: "real list \<Rightarrow> real" where
  "nearest_rank_p95 latencies =
     sort latencies ! nat (max 0 (\<lceil>(95 / 100) * real (length latencies)\<rceil> - 1))"

text \<open>Twenty-one latencies, the values 1 to 21 in descending order of arrival.\<close>

definition lat21 :: "real list" where
  "lat21 = [21, 20, 19, 18, 17, 16, 15, 14, 13, 12, 11, 10, 9, 8, 7, 6, 5, 4, 3, 2, 1]"

section \<open>Discovery (stages/discover.py)\<close>

text \<open>
  A path is the list of its segments, as \<open>Path.parts\<close> gives them. The directory tree
  below the root is a forest of files and directories; \<open>rglob\<close> yields every entry
  below the root, each under the root's own segments, with whether it is a regular file.
\<close>

type_synonym path = "string list"

datatype entry = File string | Dir string "entry list"

fun walk :: "path \<Rightarrow> entry \<Rightarrow> (path \<times> bool) list" where
  "walk pre (File n) = [(pre @ [n], True)]"
| "walk pre (Dir n children) = (pre @ [n], False) # concat (map (walk (pre @ [n])) children)"

definition rglob :: "path \<Rightarrow> entry list \<Rightarrow> (path \<times> bool) list" where
  "rglob root_dir children = concat (map (walk root_dir) children)"

definition startswith_dot :: "string \<Rightarrow> bool" where
  "startswith_dot part = (case part of [] \<Rightarrow> False | c # cs \<Rightarrow> c = CHR ''.'')"

definition rfind_dot :: "string \<Rightarrow> int" where
  "rfind_dot name =
     (case filter (\<lambda>i. name ! i = CHR ''.'') (rev [0..<length name]) of
        [] \<Rightarrow> - 1
      | i # rest \<Rightarrow> int i)"

definition path_suffix :: "path \<Rightarrow> string" where
  "path_suffix p =
     (let name = (if p = [] then [] else last p);
          i = rfind_dot name
      in if 0 < i \<and> i < int (length name) - 1 then drop (nat i) name else [])"

definition lower_char :: "char \<Rightarrow> char" where
  "lower_char c = (let n = (of_char c :: nat) in if 65 \<le> n \<and> n \<le> 90 then char_of (n + 32) else c)"

definition lower :: "string \<Rightarrow> string" where
  "lower s = map lower_char s"

definition SUPPORTED_SUFFIXES :: "string set" where
  "SUPPORTED_SUFFIXES = {''.pdf'', ''.txt''}"

text \<open>\<open>node\<close> is what the file system has at the root: nothing, a file, or a directory.\<close>

definition discover :: "path \<Rightarrow> entry option \<Rightarrow> path list" where
  "discover root_dir node =
     (case node of
        Some (Dir n children) \<Rightarrow>
          map fst (filter (\<lambda>(p, is_file).
                     is_file \<and> \<not> list_ex startswith_dot p
                       \<and> lower (path_suffix p) \<in> SUPPORTED_SUFFIXES)
                   (rglob root_dir children))
      | _ \<Rightarrow> [])"

section \<open>Fingerprints (utils/hashing.py)\<close>

text \<open>
  SHA-256 is a parameter: a function from the bytes of a file to a 256-bit digest.
  \<open>hexdigest\<close> writes the digest as 64 lowercase hexadecimal digits.
\<close>

definition hexchar :: "nat \<Rightarrow> char" where
  "hexchar n = ''0123456789abcdef'' ! (n mod 16)"

definition hexdigest :: "256 word \<Rightarrow> string" where
  "hexdigest w = map (\<lambda>i. hexchar (unat w div 16 ^ i)) (rev [0..<64])"


section \<open>Orchestration (pipeline.py, stages/write.py)\<close>

record classification =
  label :: string
  words :: nat

record output_record =
  rec_id :: string
  rec_path :: string
  rec_label :: string
  rec_words :: nat

record config =
  output_file :: string
  checkpoint_file :: string
  rate_limit_per_sec :: real
  backoff_retries :: int
  backoff_base_delay :: real

text \<open>
  What a run meets outside the orchestrator: the bytes of the input files and the hash
  function, the outcome of each call of the parser and of the classifier (by attempt),
  the jitter draws, the JSON serialiser, the faults of the appends, the order in which
  the pool completes the submitted tasks, and the clock events of each \<open>acquire\<close>.
\<close>

type_synonym task = "path \<times> string"

record env =
  read_bytes :: "path \<Rightarrow> exn + string"
  sha256 :: "string \<Rightarrow> 256 word"
  parse_call :: "path \<Rightarrow> nat \<Rightarrow> exn + string"
  classify_call :: "string \<Rightarrow> nat \<Rightarrow> exn + classification"
  jitter_draw :: "nat \<Rightarrow> real"
  dumps :: "output_record \<Rightarrow> string"
  faults :: io_faults
  completion_order :: "task list \<Rightarrow> task list"
  clock_events :: "nat \<Rightarrow> acquire_env"

text \<open>
  The state of a run: the text files the orchestrator writes (the output and the ledger),
  its checkpoint manager and rate limiter, the clock, and three counters: the tasks
  submitted, the executions of the success branch and those of the \<open>except\<close> branch
  (the metrics \<open>files_processed\<close> and \<open>errors_total\<close> when metrics are enabled).
\<close>

record state =
  files :: filesystem
  checkpoints :: checkpoint_manager
  rate_limiter :: rate_limiter
  now :: real
  submitted :: nat
  files_processed :: nat
  errors_total :: nat

definition Pipeline_init :: "config \<Rightarrow> filesystem \<Rightarrow> real \<Rightarrow> exn + state" where
  "Pipeline_init cfg fs monotonic =
     (case RateLimiter_init (rate_limit_per_sec cfg) (Some (rate_limit_per_sec cfg)) monotonic of
        Inl e \<Rightarrow> Inl e
      | Inr rl \<Rightarrow>
          Inr \<lparr>files = fs, checkpoints = CheckpointManager_init fs (checkpoint_file cfg),
               rate_limiter = rl, now = monotonic, submitted = 0, files_processed = 0,
               errors_total = 0\<rparr>)"

definition str_path :: "path \<Rightarrow> string" where
  "str_path p =
     (case p of
        [] \<Rightarrow> ''.''
      | r # ps \<Rightarrow>
          if r = ''/'' then
            ''/'' @ (case ps of [] \<Rightarrow> [] | q # qs \<Rightarrow> concat (q # map (\<lambda>x. ''/'' @ x) qs))
          else concat (r # map (\<lambda>x. ''/'' @ x) ps))"

definition scripted :: "(nat \<Rightarrow> exn + 'a) \<Rightarrow> nat \<Rightarrow> (exn + 'a) \<times> nat" where
  "scripted outcome i = (outcome i, Suc i)"

definition parse_with_retry :: "config \<Rightarrow> env \<Rightarrow> path \<Rightarrow> (exn + string) \<times> nat \<times> nat \<times> real list" where
  "parse_with_retry cfg env p =
     retry (scripted (parse_call env p)) (backoff_retries cfg) (backoff_base_delay cfg)
       (\<lambda>exc. True) (jitter_draw env) 0"

definition classify_with_retry ::
  "config \<Rightarrow> env \<Rightarrow> string \<Rightarrow> (exn + classification) \<times> nat \<times> nat \<times> real list" where
  "classify_with_retry cfg env text =
     retry (scripted (classify_call env text)) (backoff_retries cfg) (backoff_base_delay cfg)
       (\<lambda>exc. True) (jitter_draw env) 0"

definition write_result :: "env \<Rightarrow> filesystem \<Rightarrow> string \<Rightarrow> output_record \<Rightarrow> exn option \<times> filesystem" where
  "write_result env fs out result = append_text (faults env) fs out (dumps env result @ [LF])"


text \<open>
  The body of the collection loop for one completed task: the \<open>try\<close> block with its
  \<open>except Exception\<close> handler. The time slept by the classifier's retries passes on
  the orchestrator's clock.
\<close>

definition collect_one :: "config \<Rightarrow> env \<Rightarrow> state \<Rightarrow> task \<Rightarrow> state" where
  "collect_one cfg env st t =
     (case t of (p, file_hash) \<Rightarrow>
        (case fst (parse_with_retry cfg env p) of
           Inl exc \<Rightarrow> st\<lparr>errors_total := errors_total st + 1\<rparr>
         | Inr text \<Rightarrow>
             (case classify_with_retry cfg env text of
                (r, calls, n, sleeps) \<Rightarrow>
                  let st1 = st\<lparr>now := now st + sum_list sleeps\<rparr>
                  in (case r of
                        Inl exc \<Rightarrow> st1\<lparr>errors_total := errors_total st1 + 1\<rparr>
                      | Inr c \<Rightarrow>
                          let result_record = \<lparr>rec_id = file_hash, rec_path = str_path p,
                                                 rec_label = label c, rec_words = words c\<rparr>
                          in (case write_result env (files st1) (output_file cfg) result_record of
                                (Some exc, fs1) \<Rightarrow>
                                  st1\<lparr>files := fs1, errors_total := errors_total st1 + 1\<rparr>
                              | (None, fs1) \<Rightarrow>
                                  (case mark_processed (faults env) fs1 (checkpoints st1) file_hash of
                                     (Some exc, fs2, cm2) \<Rightarrow>
                                       st1\<lparr>files := fs2, checkpoints := cm2,
                                           errors_total := errors_total st1 + 1\<rparr>
                                   | (None, fs2, cm2) \<Rightarrow>
                                       st1\<lparr>files := fs2, checkpoints := cm2,
                                           files_processed := files_processed st1 + 1\<rparr>))))))"

definition collect :: "config \<Rightarrow> env \<Rightarrow> state \<Rightarrow> task list \<Rightarrow> state" where
  "collect cfg env st completed = foldl (collect_one cfg env) st completed"


text \<open>A task fails when its parse, or else its classification, raises out of the retry wrapper.\<close>

definition task_fails :: "config \<Rightarrow> env \<Rightarrow> task \<Rightarrow> bool" where
  "task_fails cfg env t =
     (case fst (parse_with_retry cfg env (fst t)) of
        Inl exc \<Rightarrow> True
      | Inr text \<Rightarrow>
          (case fst (classify_with_retry cfg env text) of Inl exc \<Rightarrow> True | Inr c \<Rightarrow> False))"

text \<open>
  Two states that agree on the files, the checkpoints and the count of successes, the first
  having counted \<open>k\<close> more errors.
\<close>

definition same_io :: "nat \<Rightarrow> state \<Rightarrow> state \<Rightarrow> bool" where
  "same_io k a b =
     (files a = files b \<and> checkpoints a = checkpoints b
      \<and> files_processed a = files_processed b \<and> errors_total a = errors_total b + k)"


text \<open>
  A small world for the examples: the parser fails on every call for the file
  \<open>in/bad.txt\<close> and returns the text of any other file; the classifier, the disk and
  the sleeps are reliable.
\<close>

definition demo_cfg :: config where
  "demo_cfg = \<lparr>output_file = ''out.jsonl'', checkpoint_file = ''ledger'',
                rate_limit_per_sec = 10, backoff_retries = 1, backoff_base_delay = 0\<rparr>"

definition demo_env :: env where
  "demo_env =
     \<lparr>read_bytes = (\<lambda>p. Inr ''bytes''),
      sha256 = (\<lambda>bytes. 0),
      parse_call = (\<lambda>p i. if p = [''in'', ''bad.txt''] then Inl (Exc ''unreadable'')
                           else Inr ''some text''),
      classify_call = (\<lambda>text i. Inr \<lparr>label = ''short'', words = 2\<rparr>),
      jitter_draw = (\<lambda>i. 0),
      dumps = (\<lambda>r. rec_id r),
      faults = no_faults,
      completion_order = (\<lambda>ts. ts),
      clock_events = (\<lambda>i. \<lparr>gap = 0, oversleep = 0\<rparr>)\<rparr>"

definition demo_state :: state where
  "demo_state =
     \<lparr>files = Map.empty, checkpoints = \<lparr>cm_path = ''ledger'', processed = {}\<rparr>,
      rate_limiter = \<lparr>rate = 10, capacity = 10, tokens = 10, last_checked = 0\<rparr>,
      now = 0, submitted = 0, files_processed = 0, errors_total = 0\<rparr>"




section \<open>Properties of the checkpoint ledger\<close>




















text \<open>
  Outside the invariant the round trip can fail: appended to a ledger whose last line has
  no terminator, the fingerprint runs into that line.
\<close>

lemma unterminated_ledger_merges_lines:
  "\<not> is_processed (CheckpointManager_init
        (fst (snd (mark_processed no_faults [''ledger'' \<mapsto> ''ab'']
                     (CheckpointManager_init [''ledger'' \<mapsto> ''ab''] ''ledger'') ''cd'')))
        ''ledger'') ''cd''"
  by (simp add: CheckpointManager_init_def readlines_def strip_def lstrip_def rstrip_def
        py_isspace_def mark_processed_def append_text_def no_faults_def is_processed_def)





text \<open>
  C10 (failed append). When \<open>h\<close> is not in the set and the durable append raises,
  \<open>mark_processed\<close> raises with the set unchanged, so a later \<open>mark_processed h\<close>
  performs the append again; with the append succeeding, the ledger gains the line and
  only then the set gains \<open>h\<close>.
\<close>

theorem mark_processed_append_failure:
  assumes "h \<notin> processed cm" and "flt fs (cm_path cm) (h @ [LF]) = Some fs'"
  shows "mark_processed flt fs cm h = (Some OSError, fs', cm)
         \<and> mark_processed no_faults fs' cm h =
             (None,
              fs'(cm_path cm \<mapsto>
                (case fs' (cm_path cm) of None \<Rightarrow> h @ [LF] | Some c \<Rightarrow> c @ h @ [LF])),
              cm\<lparr>processed := insert h (processed cm)\<rparr>)"
  using assms by (simp add: mark_processed_def append_text_def no_faults_def)

theorem mark_processed_append_failure_witness:
  "''ab'' \<notin> processed \<lparr>cm_path = ''ledger'', processed = {}\<rparr>
   \<and> always_fails Map.empty (cm_path \<lparr>cm_path = ''ledger'', processed = {}\<rparr>) (''ab'' @ [LF])
       = Some Map.empty
   \<and> mark_processed always_fails Map.empty \<lparr>cm_path = ''ledger'', processed = {}\<rparr> ''ab''
       = (Some OSError, Map.empty, \<lparr>cm_path = ''ledger'', processed = {}\<rparr>)
   \<and> mark_processed no_faults Map.empty \<lparr>cm_path = ''ledger'', processed = {}\<rparr> ''ab''
       = (None, [''ledger'' \<mapsto> ''ab'' @ [LF]], \<lparr>cm_path = ''ledger'', processed = {''ab''}\<rparr>)"
  using mark_processed_append_failure [of "''ab''" "\<lparr>cm_path = ''ledger'', processed = {}\<rparr>"
          always_fails Map.empty Map.empty]
  by (simp add: always_fails_def)

section \<open>Properties of the token bucket\<close>











text \<open>
  Time the caller spends away between two calls refills the bucket as well: then the sleeps
  alone may fall short of \<open>(N - C) / R\<close>, and the bound is on the idle time and the
  sleeps together (\<open>acquire_seq_elapsed\<close>).
\<close>

lemma idle_time_refills:
  "sum_list (map slept (acquire_seq \<lparr>rate = 1, capacity = 1, tokens = 1, last_checked = 0\<rparr> 0
      [\<lparr>gap = 0, oversleep = 0\<rparr>, \<lparr>gap = 1, oversleep = 0\<rparr>])) = 0"
  by (simp add: acquire_def Let_def)

section \<open>Properties of the retry wrapper\<close>






lemma retry_loop_not_retryable:
  "fst (func s) = Inl exc \<Longrightarrow> \<not> exceptions exc \<Longrightarrow>
     retry_loop func r bd exceptions u a s c sl = (Inl exc, snd (func s), c + 1, sl)"
  by (subst retry_loop.simps) (cases "func s", simp)





text \<open>
  A failure that is not retryable leaves at once, without a sleep. A negative base delay
  makes the first retry raise \<open>ValueError\<close> from \<open>time.sleep\<close>.
\<close>

lemma retry_not_retryable:
  "fst (func s) = Inl exc \<Longrightarrow> \<not> exceptions exc \<Longrightarrow>
     retry func r bd exceptions u s = (Inl exc, snd (func s), 1, [])"
  by (simp add: retry_def retry_loop_not_retryable)

lemma negative_delay_raises:
  "retry (flaky 1) 3 (- 1) (\<lambda>exc. True) (\<lambda>i. 1 / 2) 0 = (Inl ValueError, 1, 1, [])"
  by (simp add: retry_def retry_loop.simps flaky_def)

section \<open>Properties of the benchmark's tail latency\<close>

lemma sort_lat21: "sort lat21 = [1, 2, 3, 4, 5, 6, 7, 8, 9, 10, 11, 12, 13, 14, 15, 16, 17, 18, 19, 20, 21]"
  by (simp add: lat21_def)

lemma len21: "length lat21 = 21"
  by (simp add: lat21_def)

text \<open>
  C8 (tail latency). On 21 samples the benchmark reports the element of rank 19, where
  the nearest-rank 95th percentile is the element of rank
  \<open>\<lceil>0.95 \<cdot> 21\<rceil> = 20\<close>: the index is computed with a truncation,
  \<open>\<lfloor>0.95 \<cdot> count\<rfloor> - 1\<close> (\<open>bench_p95_large\<close>).
\<close>

theorem bench_p95_below_nearest_rank:
  "bench_p95 lat21 = 19 \<and> nearest_rank_p95 lat21 = 20"
proof -
  have f: "\<lfloor>(95 / 100) * real (21::nat)\<rfloor> = 19" by simp
  have c: "\<lceil>(95 / 100) * real (21::nat)\<rceil> = 20" by (simp add: ceiling_eq_iff)
  have ne: "lat21 \<noteq> []" by (simp add: lat21_def)
  have 1: "bench_p95 lat21 = 19"
    unfolding bench_p95_def Let_def using ne by (simp add: len21 sort_lat21 f)
  have 2: "nearest_rank_p95 lat21 = 20"
    unfolding nearest_rank_p95_def by (simp add: len21 sort_lat21 c)
  from 1 2 show ?thesis by simp
qed

lemma bench_p95_small:
  "latencies \<noteq> [] \<Longrightarrow> length latencies < 20 \<Longrightarrow> bench_p95 latencies = Max (set latencies)"
  by (simp add: bench_p95_def)

lemma floor_p95: "\<lfloor>(95 / 100) * real n\<rfloor> = int (95 * n div 100)"
proof -
  have "(95 / 100) * real n = real (95 * n) / real 100" by simp
  then show ?thesis by (simp only: floor_divide_of_nat_eq)
qed

lemma bench_p95_large:
  assumes "20 \<le> length latencies"
  shows "bench_p95 latencies = sort latencies ! (95 * length latencies div 100 - 1)"
proof -
  from assms have ne: "latencies \<noteq> []" by auto
  have "nat (max 0 (int (95 * length latencies div 100) - 1)) = 95 * length latencies div 100 - 1"
    by simp
  then show ?thesis
    unfolding bench_p95_def Let_def length_sort floor_p95 using assms ne by simp
qed

section \<open>Properties of discovery\<close>







lemma visible_file_discovered:
  "discover [''in''] (Some (Dir ''in'' [Dir ''docs'' [File ''a.TXT''], File ''.b.txt'', File ''c.md'']))
     = [ [''in'', ''docs'', ''a.TXT''] ]"
  by code_simp

text \<open>
  The test runs over every element of \<open>path.parts\<close>, the root's own segments included:
  under a root with a segment that starts with \<open>.\<close> nothing is yielded, which the
  statement above leaves aside.
\<close>

lemma hidden_root_excludes_everything:
  "discover [''/'', ''home'', ''.cache''] (Some (Dir ''.cache'' [File ''a.txt''])) = []"
  by code_simp

section \<open>Properties of a run\<close>

lemma Pipeline_init_state:
  "Pipeline_init cfg fs t = Inr st \<Longrightarrow>
     files st = fs \<and> checkpoints st = CheckpointManager_init fs (checkpoint_file cfg)
     \<and> tokens (rate_limiter st) = capacity (rate_limiter st) \<and> 0 < rate (rate_limiter st)"
  by (auto simp: Pipeline_init_def RateLimiter_init_def Let_def split: if_splits)

lemma collect_one_failed:
  assumes "task_fails cfg env t"
  shows "files (collect_one cfg env st t) = files st
         \<and> checkpoints (collect_one cfg env st t) = checkpoints st
         \<and> files_processed (collect_one cfg env st t) = files_processed st
         \<and> errors_total (collect_one cfg env st t) = errors_total st + 1"
  using assms
  by (cases t) (auto simp: task_fails_def collect_one_def Let_def split: sum.splits prod.splits)

text \<open>
  What a task does to the files and the checkpoints does not depend on the counters and
  the clock.
\<close>

lemma collect_one_same_io:
  "same_io k a b \<Longrightarrow> same_io k (collect_one cfg env a t) (collect_one cfg env b t)"
  by (cases t)
     (auto simp: same_io_def collect_one_def Let_def split: sum.splits prod.splits option.splits)

lemma collect_same_io:
  "same_io k a b \<Longrightarrow> same_io k (collect cfg env a ts) (collect cfg env b ts)"
  unfolding collect_def
  by (induction ts arbitrary: a b) (simp_all add: collect_one_same_io)

lemma collect_append:
  "collect cfg env st (xs @ ys) = collect cfg env (collect cfg env st xs) ys"
  by (simp add: collect_def)

lemma collect_Cons:
  "collect cfg env st (t # ts) = collect cfg env (collect_one cfg env st t) ts"
  by (simp add: collect_def)

text \<open>
  C4 (failure isolation). For a task whose parse or classification raises out of the
  retry wrapper, the body of the collection loop calls neither \<open>write_result\<close> nor
  \<open>mark_processed\<close>: the files (output and ledger) and the checkpoints are unchanged,
  one error is counted. The loop goes on: with the failed task anywhere in the completion
  order, the files, the checkpoints and the count of successes at the end are those of
  the same run without it.
\<close>

theorem failed_task_is_isolated:
  assumes "task_fails cfg env t"
  shows "files (collect_one cfg env st t) = files st
         \<and> checkpoints (collect_one cfg env st t) = checkpoints st
         \<and> files_processed (collect_one cfg env st t) = files_processed st
         \<and> errors_total (collect_one cfg env st t) = errors_total st + 1
         \<and> files (collect cfg env st (before @ t # after)) = files (collect cfg env st (before @ after))
         \<and> checkpoints (collect cfg env st (before @ t # after))
             = checkpoints (collect cfg env st (before @ after))
         \<and> files_processed (collect cfg env st (before @ t # after))
             = files_processed (collect cfg env st (before @ after))
         \<and> errors_total (collect cfg env st (before @ t # after))
             = errors_total (collect cfg env st (before @ after)) + 1"
proof -
  let ?m = "collect cfg env st before"
  have "same_io 1 (collect_one cfg env ?m t) ?m"
    using collect_one_failed [OF assms, of ?m] by (simp add: same_io_def)
  then have "same_io 1 (collect cfg env (collect_one cfg env ?m t) after) (collect cfg env ?m after)"
    by (rule collect_same_io)
  then have "same_io 1 (collect cfg env st (before @ t # after)) (collect cfg env st (before @ after))"
    by (simp add: collect_append collect_Cons)
  with collect_one_failed [OF assms, of st] show ?thesis by (simp add: same_io_def)
qed

theorem failed_task_is_isolated_witness:
  "task_fails demo_cfg demo_env ([''in'', ''bad.txt''], ''ab'')
   \<and> files (collect_one demo_cfg demo_env demo_state ([''in'', ''bad.txt''], ''ab'')) = files demo_state
   \<and> checkpoints (collect_one demo_cfg demo_env demo_state ([''in'', ''bad.txt''], ''ab''))
       = checkpoints demo_state
   \<and> errors_total (collect_one demo_cfg demo_env demo_state ([''in'', ''bad.txt''], ''ab''))
       = errors_total demo_state + 1
   \<and> files (collect demo_cfg demo_env demo_state
        ([([''in'', ''a.txt''], ''cd'')] @ ([''in'', ''bad.txt''], ''ab'') # [([''in'', ''c.txt''], ''ef'')]))
       = files (collect demo_cfg demo_env demo_state
           ([([''in'', ''a.txt''], ''cd'')] @ [([''in'', ''c.txt''], ''ef'')]))
   \<and> checkpoints (collect demo_cfg demo_env demo_state
        ([([''in'', ''a.txt''], ''cd'')] @ ([''in'', ''bad.txt''], ''ab'') # [([''in'', ''c.txt''], ''ef'')]))
       = checkpoints (collect demo_cfg demo_env demo_state
           ([([''in'', ''a.txt''], ''cd'')] @ [([''in'', ''c.txt''], ''ef'')]))"
proof -
  have h: "task_fails demo_cfg demo_env ([''in'', ''bad.txt''], ''ab'')"
    by (simp add: task_fails_def parse_with_retry_def retry_def retry_loop.simps scripted_def
          demo_env_def demo_cfg_def)
  from failed_task_is_isolated [OF h, of demo_state "[([''in'', ''a.txt''], ''cd'')]"
         "[([''in'', ''c.txt''], ''ef'')]"] h
  show ?thesis by blast
qed

lemma demo_collect:
  "collect demo_cfg demo_env demo_state
        ([([''in'', ''a.txt''], ''cd'')] @ ([''in'', ''bad.txt''], ''ab'') # [([''in'', ''c.txt''], ''ef'')])
   = \<lparr>files = [''out.jsonl'' \<mapsto> ''cd'' @ [LF] @ ''ef'' @ [LF], ''ledger'' \<mapsto> ''cd'' @ [LF] @ ''ef'' @ [LF]],
      checkpoints = \<lparr>cm_path = ''ledger'', processed = {''ef'', ''cd''}\<rparr>,
      rate_limiter = \<lparr>rate = 10, capacity = 10, tokens = 10, last_checked = 0\<rparr>,
      now = 0, submitted = 0, files_processed = 2, errors_total = 1\<rparr>"
  by (simp add: collect_def collect_one_def parse_with_retry_def classify_with_retry_def retry_def
        retry_loop.simps scripted_def demo_env_def demo_cfg_def demo_state_def write_result_def
        append_text_def no_faults_def mark_processed_def str_path_def Let_def)



lemma length_hexdigest: "length (hexdigest w) = 64"
  by (simp add: hexdigest_def)













end
